theory Spec2Isabelle
  imports Complex_Main
begin

section \<open>JavaScript numbers: IEEE 754 binary64\<close>

text \<open>
  The component stores \<open>string | number | bigint\<close>. A \<open>number\<close> is a binary64
  double. A finite double is kept as the rational it denotes; \<open>-0\<close> is identified
  with \<open>0\<close> (the code never divides by zero and never prints a zero's sign in a way
  that is parsed back differently). Every arithmetic operation computes the exact
  rational result and rounds it with \<open>fl\<close> (round to nearest, ties to even, 53 bits,
  subnormals below \<open>2^-1022\<close>, overflow to infinity).
\<close>

datatype number = NaN | PInf | NInf | Fin rat

function bitlen :: "int \<Rightarrow> nat" where
  "bitlen n = (if n \<le> 0 then 0 else Suc (bitlen (n div 2)))"
  by pat_completeness auto
termination
  by (relation "measure nat") auto

declare bitlen.simps [simp del]

definition pow2 :: "int \<Rightarrow> rat" where
  "pow2 k = (if 0 \<le> k then 2 ^ nat k else 1 / 2 ^ nat (- k))"

text \<open>\<open>ilog2 q\<close> is \<open>\<lfloor>log\<^sub>2 q\<rfloor>\<close> for \<open>q > 0\<close>.\<close>

definition ilog2 :: "rat \<Rightarrow> int" where
  "ilog2 q =
     (if 1 \<le> q then int (bitlen \<lfloor>q\<rfloor>) - 1
      else (let r = 1 / q; n = int (bitlen \<lfloor>r\<rfloor>) - 1
            in if pow2 n = r then - n else - (n + 1)))"

definition round_half_even :: "rat \<Rightarrow> int" where
  "round_half_even x =
     (let f = \<lfloor>x\<rfloor>; d = x - of_int f
      in if d < 1 / 2 then f else if 1 / 2 < d then f + 1
         else if even f then f else f + 1)"

definition fl :: "rat \<Rightarrow> number" where
  "fl q =
     (if q = 0 then Fin 0
      else (let a = \<bar>q\<bar>;
                e = max (ilog2 a - 52) (- 1074);
                r = of_int (round_half_even (a / pow2 e)) * pow2 e
            in if 2 ^ 1024 \<le> r then (if 0 < q then PInf else NInf)
               else Fin (if 0 < q then r else - r)))"

text \<open>A rational is a double when rounding leaves it alone.\<close>

definition is_double :: "rat \<Rightarrow> bool" where
  "is_double q \<longleftrightarrow> fl q = Fin q"

fun num_neg :: "number \<Rightarrow> number" where
  "num_neg NaN = NaN"
| "num_neg PInf = NInf"
| "num_neg NInf = PInf"
| "num_neg (Fin x) = Fin (- x)"

fun num_add :: "number \<Rightarrow> number \<Rightarrow> number" where
  "num_add (Fin x) (Fin y) = fl (x + y)"
| "num_add NaN _ = NaN"
| "num_add _ NaN = NaN"
| "num_add PInf NInf = NaN"
| "num_add NInf PInf = NaN"
| "num_add PInf _ = PInf"
| "num_add NInf _ = NInf"
| "num_add _ PInf = PInf"
| "num_add _ NInf = NInf"

definition num_sub :: "number \<Rightarrow> number \<Rightarrow> number" where
  "num_sub a b = num_add a (num_neg b)"

fun num_sgn :: "number \<Rightarrow> int" where
  "num_sgn NaN = 0"
| "num_sgn PInf = 1"
| "num_sgn NInf = - 1"
| "num_sgn (Fin x) = (if 0 < x then 1 else if x < 0 then - 1 else 0)"

fun is_finite :: "number \<Rightarrow> bool" where
  "is_finite (Fin _) = True"
| "is_finite _ = False"

definition num_mult :: "number \<Rightarrow> number \<Rightarrow> number" where
  "num_mult a b =
     (case (a, b) of
        (Fin x, Fin y) \<Rightarrow> fl (x * y)
      | _ \<Rightarrow> (if a = NaN \<or> b = NaN \<or> num_sgn a * num_sgn b = 0 then NaN
              else if 0 < num_sgn a * num_sgn b then PInf else NInf))"

text \<open>
  Division. A zero divisor is taken as \<open>+0\<close>; the only divisor in the component is
  \<open>10 ** precision\<close>, which is never zero.
\<close>

definition num_div :: "number \<Rightarrow> number \<Rightarrow> number" where
  "num_div a b =
     (case (a, b) of
        (Fin x, Fin y) \<Rightarrow>
          (if y = 0 then (if x = 0 then NaN else if 0 < x then PInf else NInf)
           else fl (x / y))
      | (Fin x, _) \<Rightarrow> (if b = NaN then NaN else Fin 0)
      | (_, Fin y) \<Rightarrow>
          (if a = NaN then NaN
           else if 0 < num_sgn a * (if y < 0 then - 1 else 1) then PInf else NInf)
      | _ \<Rightarrow> NaN)"

text \<open>The relational operators: every comparison with \<open>NaN\<close> is false.\<close>

definition num_less :: "number \<Rightarrow> number \<Rightarrow> bool" where
  "num_less a b \<longleftrightarrow>
     (case a of
        NaN \<Rightarrow> False
      | PInf \<Rightarrow> False
      | NInf \<Rightarrow> (case b of NaN \<Rightarrow> False | NInf \<Rightarrow> False | _ \<Rightarrow> True)
      | Fin x \<Rightarrow> (case b of Fin y \<Rightarrow> x < y | PInf \<Rightarrow> True | _ \<Rightarrow> False))"

definition num_le :: "number \<Rightarrow> number \<Rightarrow> bool" where
  "num_le a b \<longleftrightarrow> a \<noteq> NaN \<and> b \<noteq> NaN \<and> \<not> num_less b a"

text \<open>\<open>Math.round\<close>: \<open>\<lfloor>x + 1/2\<rfloor>\<close>, always a double when \<open>x\<close> is one.\<close>

fun Math_round :: "number \<Rightarrow> number" where
  "Math_round (Fin x) = Fin (of_int \<lfloor>x + 1 / 2\<rfloor>)"
| "Math_round n = n"

text \<open>\<open>10 ** p\<close> for a non-negative integer \<open>p\<close>, correctly rounded.\<close>

definition pow10 :: "nat \<Rightarrow> number" where
  "pow10 p = fl (10 ^ p)"

definition MAX_SAFE_INTEGER :: number where
  "MAX_SAFE_INTEGER = Fin 9007199254740991"

definition MIN_SAFE_INTEGER :: number where
  "MIN_SAFE_INTEGER = Fin (- 9007199254740991)"

text \<open>\<open>Number.isFinite(v) && Number.isInteger(v)\<close> and \<open>BigInt(v)\<close> on such a value.\<close>

fun is_integer :: "number \<Rightarrow> bool" where
  "is_integer (Fin x) \<longleftrightarrow> of_int \<lfloor>x\<rfloor> = x"
| "is_integer _ \<longleftrightarrow> False"

fun BigInt_of_number :: "number \<Rightarrow> int" where
  "BigInt_of_number (Fin x) = \<lfloor>x\<rfloor>"
| "BigInt_of_number _ = 0"

section \<open>Strings, the regular expressions of the component, and conversions\<close>

text \<open>
  Strings hold the ASCII characters a number can be written with. Each regular expression
  of the source is a recogniser written out by hand; \<open>\d\<close> is an ASCII digit and
  \<open>$\<close> (no \<open>m\<close> flag) is the end of the string.
\<close>

definition is_digit :: "char \<Rightarrow> bool" where
  "is_digit c \<longleftrightarrow> c \<in> set ''0123456789''"

definition digit_val :: "char \<Rightarrow> nat" where
  "digit_val c = of_char c - 48"

definition digit_char :: "nat \<Rightarrow> char" where
  "digit_char d = ''0123456789'' ! d"

definition strip_minus :: "string \<Rightarrow> string" where
  "strip_minus s = (if s \<noteq> [] \<and> hd s = CHR ''-'' then tl s else s)"

definition starts_with :: "string \<Rightarrow> string \<Rightarrow> bool" where
  "starts_with s p \<longleftrightarrow> take (length p) s = p"

text \<open>\<open>/^-?\d+$/\<close>\<close>

definition integerPattern :: "string \<Rightarrow> bool" where
  "integerPattern s \<longleftrightarrow> strip_minus s \<noteq> [] \<and> list_all is_digit (strip_minus s)"

text \<open>\<open>leadingDecimalZeroPattern = /^(0\.0*|-0(\.0*)?)$/\<close>\<close>

definition all_zeros :: "string \<Rightarrow> bool" where
  "all_zeros s \<longleftrightarrow> list_all (\<lambda>c. c = CHR ''0'') s"

definition leadingDecimalZeroPattern :: "string \<Rightarrow> bool" where
  "leadingDecimalZeroPattern s \<longleftrightarrow>
     (starts_with s ''0.'' \<and> all_zeros (drop 2 s)) \<or> s = ''-0'' \<or>
     (starts_with s ''-0.'' \<and> all_zeros (drop 3 s))"

text \<open>\<open>leadingZerosPattern = /^-?0\d+(\.\d+)?\.?$/\<close>\<close>

definition leadingZerosPattern :: "string \<Rightarrow> bool" where
  "leadingZerosPattern s \<longleftrightarrow>
     (let r = strip_minus s in
      r \<noteq> [] \<and> hd r = CHR ''0'' \<and>
      (let ds = takeWhile is_digit (tl r); u = dropWhile is_digit (tl r) in
       ds \<noteq> [] \<and>
       (u = [] \<or> u = ''.'' \<or>
        (hd u = CHR ''.'' \<and>
         (let fs = takeWhile is_digit (tl u); w = dropWhile is_digit (tl u) in
          fs \<noteq> [] \<and> (w = [] \<or> w = ''.''))))))"

text \<open>\<open>trailingZerosPattern = /\.\d*0$/\<close>: the digits after the last dot end in a zero.\<close>

definition trailingZerosPattern :: "string \<Rightarrow> bool" where
  "trailingZerosPattern s \<longleftrightarrow>
     (let ds = takeWhile is_digit (rev s); u = dropWhile is_digit (rev s) in
      u \<noteq> [] \<and> hd u = CHR ''.'' \<and> ds \<noteq> [] \<and> hd ds = CHR ''0'')"

text \<open>\<open>trailingDecimalSeparatorPattern = /^-?\d+\.$/\<close>\<close>

definition trailingDecimalSeparatorPattern :: "string \<Rightarrow> bool" where
  "trailingDecimalSeparatorPattern s \<longleftrightarrow>
     (let r = strip_minus s in
      r \<noteq> [] \<and> last r = CHR ''.'' \<and> butlast r \<noteq> [] \<and> list_all is_digit (butlast r))"

text \<open>
  \<open>s.replace(/^0+(?=\d)/, '')\<close>: the leading zeros go while a digit follows them, so
  a run of zeros that is not followed by another digit keeps its last zero.
\<close>

definition strip_leading_zeros :: "string \<Rightarrow> string" where
  "strip_leading_zeros s =
     (let z = takeWhile (\<lambda>c. c = CHR ''0'') s; u = dropWhile (\<lambda>c. c = CHR ''0'') s in
      if z = [] then s
      else if u \<noteq> [] \<and> is_digit (hd u) then u
      else CHR ''0'' # u)"

subsection \<open>Decimal digits\<close>

function digits_of_nat :: "nat \<Rightarrow> string" where
  "digits_of_nat n =
     (if n < 10 then [digit_char n] else digits_of_nat (n div 10) @ [digit_char (n mod 10)])"
  by pat_completeness auto
termination
  by (relation "measure id") auto

declare digits_of_nat.simps [simp del]

definition nat_of_digits :: "string \<Rightarrow> nat" where
  "nat_of_digits s = foldl (\<lambda>a c. 10 * a + digit_val c) 0 s"

text \<open>\<open>BigInt.prototype.toString\<close> and \<open>BigInt(string)\<close> on a string of \<open>integerPattern\<close>.\<close>

definition bigint_toString :: "int \<Rightarrow> string" where
  "bigint_toString i =
     (if i < 0 then CHR ''-'' # digits_of_nat (nat (- i)) else digits_of_nat (nat i))"

definition BigInt_of_string :: "string \<Rightarrow> int" where
  "BigInt_of_string s =
     (if s \<noteq> [] \<and> hd s = CHR ''-'' then - int (nat_of_digits (tl s))
      else int (nat_of_digits s))"

subsection \<open>\<open>Number::toString\<close> (radix 10)\<close>

function declen :: "int \<Rightarrow> nat" where
  "declen n = (if n \<le> 0 then 0 else Suc (declen (n div 10)))"
  by pat_completeness auto
termination
  by (relation "measure nat") auto

declare declen.simps [simp del]

definition pow10r :: "int \<Rightarrow> rat" where
  "pow10r k = (if 0 \<le> k then 10 ^ nat k else 1 / 10 ^ nat (- k))"

text \<open>\<open>dec_exponent x\<close> is the \<open>n\<close> with \<open>10^(n-1) \<le> x < 10^n\<close>, for \<open>x > 0\<close>.\<close>

definition dec_exponent :: "rat \<Rightarrow> int" where
  "dec_exponent x =
     (if 1 \<le> x then int (declen \<lfloor>x\<rfloor>)
      else (let r = 1 / x; m = int (declen \<lfloor>r\<rfloor>)
            in if pow10r (m - 1) = r then 2 - m else 1 - m))"

text \<open>
  The specification of \<open>Number::toString\<close> asks for integers \<open>n\<close>, \<open>k\<close>, \<open>s\<close> with
  \<open>k\<close> as small as possible such that \<open>s\<close> has \<open>k\<close> digits and \<open>s \<times> 10^(n-k)\<close> rounds
  to \<open>x\<close>; among several \<open>s\<close> the one closest to \<open>x\<close>. The search tries
  \<open>k = 1, 2, \<dots>\<close> with the two integers next to \<open>x / 10^(n-k)\<close>, the nearer first;
  seventeen digits always suffice for a double.
\<close>

definition sig_candidates :: "rat \<Rightarrow> int \<Rightarrow> nat \<Rightarrow> int list" where
  "sig_candidates x n k =
     (let y = x / pow10r (n - int k); f = \<lfloor>y\<rfloor>; d = y - of_int f
      in if d < 1 / 2 then [f, f + 1] else if 1 / 2 < d then [f + 1, f]
         else if even f then [f, f + 1] else [f + 1, f])"

definition roundtrips :: "rat \<Rightarrow> int \<Rightarrow> nat \<Rightarrow> int \<Rightarrow> bool" where
  "roundtrips x n k s \<longleftrightarrow> fl (of_int s * pow10r (n - int k)) = Fin x"

function shortest :: "rat \<Rightarrow> int \<Rightarrow> nat \<Rightarrow> int \<times> nat" where
  "shortest x n k =
     (if 17 \<le> k then (hd (sig_candidates x n k), k)
      else (case filter (roundtrips x n k) (sig_candidates x n k) of
              s # _ \<Rightarrow> (s, k)
            | [] \<Rightarrow> shortest x n (k + 1)))"
  by pat_completeness auto
termination
  by (relation "measure (\<lambda>(x, n, k). 17 - k)") auto

declare shortest.simps [simp del]

definition strip_trailing_zeros :: "string \<Rightarrow> string" where
  "strip_trailing_zeros d = rev (dropWhile (\<lambda>c. c = CHR ''0'') (rev d))"

text \<open>The digits of a positive double and the position \<open>n\<close> of its decimal point.\<close>

definition shortest_digits :: "rat \<Rightarrow> string \<times> int" where
  "shortest_digits x =
     (let n = dec_exponent x; (s, k) = shortest x n 1; d = digits_of_nat (nat s)
      in (strip_trailing_zeros d, n - int k + int (length d)))"

definition format_digits :: "string \<Rightarrow> int \<Rightarrow> string" where
  "format_digits d n =
     (let k = int (length d) in
      if k \<le> n \<and> n \<le> 21 then d @ replicate (nat (n - k)) CHR ''0''
      else if 0 < n \<and> n \<le> 21 then take (nat n) d @ ''.'' @ drop (nat n) d
      else if - 6 < n \<and> n \<le> 0 then ''0.'' @ replicate (nat (- n)) CHR ''0'' @ d
      else (let e = n - 1;
                es = (if e < 0 then ''-'' else ''+'') @ digits_of_nat (nat \<bar>e\<bar>)
            in if k = 1 then d @ ''e'' @ es
               else hd d # ''.'' @ tl d @ ''e'' @ es))"

definition pos_toString :: "rat \<Rightarrow> string" where
  "pos_toString x = (let (d, n) = shortest_digits x in format_digits d n)"

fun number_toString :: "number \<Rightarrow> string" where
  "number_toString NaN = ''NaN''"
| "number_toString PInf = ''Infinity''"
| "number_toString NInf = ''-Infinity''"
| "number_toString (Fin x) =
     (if x = 0 then ''0'' else if x < 0 then CHR ''-'' # pos_toString (- x)
      else pos_toString x)"

subsection \<open>\<open>Number.prototype.toFixed\<close>\<close>

datatype error = RangeError | TypeError

text \<open>
  \<open>toFixed\<close> throws a RangeError unless \<open>0 \<le> f \<le> 100\<close>; a value that is not finite
  or is at least \<open>10^21\<close> in size is printed by \<open>toString\<close>; otherwise the integer
  \<open>n\<close> with \<open>n / 10^f\<close> nearest to \<open>\<bar>x\<bar>\<close> (the larger of two) is printed with
  \<open>f\<close> digits after the point.
\<close>

definition fixed_digits :: "rat \<Rightarrow> nat \<Rightarrow> string" where
  "fixed_digits x f =
     (let m = digits_of_nat (nat \<lfloor>x * 10 ^ f + 1 / 2\<rfloor>) in
      if f = 0 then m
      else (let m' = (if length m \<le> f then replicate (f + 1 - length m) CHR ''0'' @ m else m);
                k = length m'
            in take (k - f) m' @ ''.'' @ drop (k - f) m'))"

definition toFixed :: "number \<Rightarrow> nat \<Rightarrow> error + string" where
  "toFixed v f =
     (if 100 < f then Inl RangeError
      else (case v of
              Fin x \<Rightarrow>
                (if 10 ^ 21 \<le> \<bar>x\<bar> then Inr (number_toString v)
                 else if x < 0 then Inr (CHR ''-'' # fixed_digits (- x) f)
                 else Inr (fixed_digits x f))
            | _ \<Rightarrow> Inr (number_toString v)))"

subsection \<open>\<open>parseFloat\<close> and \<open>Number(string)\<close>\<close>

definition is_space :: "char \<Rightarrow> bool" where
  "is_space c \<longleftrightarrow> (of_char c :: nat) \<in> {9, 10, 11, 12, 13, 32, 160}"

definition scan_sign :: "string \<Rightarrow> int \<times> string" where
  "scan_sign s =
     (if s \<noteq> [] \<and> hd s = CHR ''-'' then (- 1, tl s)
      else if s \<noteq> [] \<and> hd s = CHR ''+'' then (1, tl s)
      else (1, s))"

text \<open>The exponent part \<open>[eE][+-]?\d+\<close>, if one is complete at the head of the string.\<close>

definition scan_exponent :: "string \<Rightarrow> (int \<times> string) option" where
  "scan_exponent s =
     (if s \<noteq> [] \<and> (hd s = CHR ''e'' \<or> hd s = CHR ''E'') then
        (let (sg, r) = scan_sign (tl s); ds = takeWhile is_digit r
         in if ds = [] then None
            else Some (sg * int (nat_of_digits ds), dropWhile is_digit r))
      else None)"

text \<open>
  The longest prefix that is a \<open>StrDecimalLiteral\<close>, its value and what follows it.
  The value of a literal is the double nearest to the decimal number written.
\<close>

definition scan_decimal :: "string \<Rightarrow> (number \<times> string) option" where
  "scan_decimal s =
     (let (sg, r) = scan_sign s in
      if starts_with r ''Infinity'' then Some (if sg < 0 then NInf else PInf, drop 8 r)
      else
        (let d1 = takeWhile is_digit r; r1 = dropWhile is_digit r;
             dot = (r1 \<noteq> [] \<and> hd r1 = CHR ''.'');
             d2 = (if dot then takeWhile is_digit (tl r1) else []);
             r2 = (if dot then dropWhile is_digit (tl r1) else r1)
         in if d1 = [] \<and> d2 = [] then None
            else
              (let (ex, r3) = (case scan_exponent r2 of None \<Rightarrow> (0, r2) | Some p \<Rightarrow> p)
               in Some (fl (of_int sg * of_nat (nat_of_digits (d1 @ d2)) *
                            pow10r (ex - int (length d2))), r3))))"

definition parseFloat :: "string \<Rightarrow> number" where
  "parseFloat s =
     (case scan_decimal (dropWhile is_space s) of None \<Rightarrow> NaN | Some (v, _) \<Rightarrow> v)"

definition trim :: "string \<Rightarrow> string" where
  "trim s = rev (dropWhile is_space (rev (dropWhile is_space s)))"

definition radix_digit :: "nat \<Rightarrow> char \<Rightarrow> nat option" where
  "radix_digit b c =
     (let v = (if is_digit c then Some (digit_val c)
               else if c \<in> set ''abcdef'' then Some (of_char c - 87)
               else if c \<in> set ''ABCDEF'' then Some (of_char c - 55)
               else None)
      in case v of None \<Rightarrow> None | Some d \<Rightarrow> if d < b then Some d else None)"

definition radix_value :: "nat \<Rightarrow> string \<Rightarrow> nat option" where
  "radix_value b s =
     (if s = [] \<or> \<not> list_all (\<lambda>c. radix_digit b c \<noteq> None) s then None
      else Some (foldl (\<lambda>a c. b * a + the (radix_digit b c)) 0 s))"

text \<open>
  \<open>Number(s)\<close>: white space is trimmed; the empty string is \<open>0\<close>; \<open>0x\<close>, \<open>0o\<close> and
  \<open>0b\<close> literals are read in their radix; anything else must be a whole
  \<open>StrDecimalLiteral\<close>, or the result is \<open>NaN\<close>.
\<close>

definition Number_of_string :: "string \<Rightarrow> number" where
  "Number_of_string s =
     (let t = trim s in
      if t = [] then Fin 0
      else if starts_with t ''0x'' \<or> starts_with t ''0X'' then
        (case radix_value 16 (drop 2 t) of None \<Rightarrow> NaN | Some n \<Rightarrow> fl (of_nat n))
      else if starts_with t ''0o'' \<or> starts_with t ''0O'' then
        (case radix_value 8 (drop 2 t) of None \<Rightarrow> NaN | Some n \<Rightarrow> fl (of_nat n))
      else if starts_with t ''0b'' \<or> starts_with t ''0B'' then
        (case radix_value 2 (drop 2 t) of None \<Rightarrow> NaN | Some n \<Rightarrow> fl (of_nat n))
      else (case scan_decimal t of
              Some (v, []) \<Rightarrow> v
            | _ \<Rightarrow> NaN))"

section \<open>The NumberInput component\<close>

subsection \<open>Values, props and effects\<close>

text \<open>\<open>InternalNumberInputValue = string | number | bigint\<close>\<close>

datatype js_value = Str string | Num number | Big int

text \<open>\<open>NumberInputNumericType = number | bigint\<close>, the type of \<open>min\<close>, \<open>max\<close>, \<open>step\<close>, \<open>startValue\<close>.\<close>

datatype numeric = NNum number | NBig int

datatype NumberInputMode = number_mode | bigint_mode

datatype clamp_behavior = strict | blur | none

text \<open>\<open>NumberFormatValues\<close>, the payload of react-number-format.\<close>

record NumberFormatValues =
  floatValue :: "number option"
  formattedValue :: string
  text_value :: string

text \<open>
  The props after \<open>useProps\<close> has filled in \<open>defaultProps\<close> (\<open>step = 1\<close>,
  \<open>startValue = 0\<close>, \<open>clampBehavior = 'blur'\<close>, the three flags true).
\<close>

record props =
  value_prop :: "js_value option"
  defaultValue :: "js_value option"
  min_prop :: "numeric option"
  max_prop :: "numeric option"
  step :: numeric
  startValue :: numeric
  allowNegative :: bool
  allowLeadingZeros :: bool
  trimLeadingZeroesOnBlur :: bool
  clampBehavior :: clamp_behavior
  isAllowed :: "(NumberFormatValues \<Rightarrow> bool) option"

text \<open>
  What one handler call does: the argument of \<open>setValue\<close> if it is called, how often
  \<open>onMaxReached\<close> and \<open>onMinReached\<close> are invoked, the payload passed to
  \<open>onValueChange\<close>, and the exception if the handler throws.
\<close>

record effects =
  stored :: "js_value option"
  maxReached :: nat
  minReached :: nat
  emitted :: "NumberFormatValues option"
  threw :: "error option"

definition no_effects :: effects where
  "no_effects = \<lparr>stored = None, maxReached = 0, minReached = 0, emitted = None, threw = None\<rparr>"

text \<open>\<open>defaultProps\<close>, with every other prop left undefined.\<close>

definition default_props :: props where
  "default_props =
     \<lparr>value_prop = None, defaultValue = None, min_prop = None, max_prop = None,
      step = NNum (Fin 1), startValue = NNum (Fin 0), allowNegative = True,
      allowLeadingZeros = True, trimLeadingZeroesOnBlur = True, clampBehavior = blur,
      isAllowed = None\<rparr>"

subsection \<open>Helper functions of the module\<close>

definition isNumberString :: "js_value \<Rightarrow> bool" where
  "isNumberString v = (case v of Str s \<Rightarrow> s \<noteq> [] \<and> Number_of_string s \<noteq> NaN | _ \<Rightarrow> False)"

definition isBigIntValue :: "js_value option \<Rightarrow> bool" where
  "isBigIntValue v = (case v of Some (Big _) \<Rightarrow> True | _ \<Rightarrow> False)"

definition canStep :: "js_value \<Rightarrow> bool" where
  "canStep v =
     (case v of
        Num n \<Rightarrow> num_less n MAX_SAFE_INTEGER
      | Str s \<Rightarrow> s = [] \<or> (isNumberString v \<and> num_less (Number_of_string s) MAX_SAFE_INTEGER)
      | Big _ \<Rightarrow> False)"

definition isValidBigIntString :: "string \<Rightarrow> bool \<Rightarrow> bool" where
  "isValidBigIntString s allowNeg =
     (if s = [] then False
      else if s = ''-'' then False
      else if \<not> allowNeg \<and> starts_with s ''-'' then False
      else integerPattern s)"

text \<open>
  \<open>canStepBigInt\<close> is typed for \<open>bigint | string\<close> but is called on the stored value
  as it is. On a number, \<open>value.startsWith\<close> is not a function, so the call throws
  when it is reached (\<open>allowNegative\<close> false); otherwise the regular expression is
  tested on the number's string.
\<close>

definition canStepBigInt :: "js_value \<Rightarrow> bool \<Rightarrow> error + bool" where
  "canStepBigInt v allowNeg =
     (case v of
        Big _ \<Rightarrow> Inr True
      | Str s \<Rightarrow> Inr (s = [] \<or> isValidBigIntString s allowNeg)
      | Num n \<Rightarrow> (if \<not> allowNeg then Inl TypeError else Inr (integerPattern (number_toString n))))"

definition parseBigIntFromString :: "string \<Rightarrow> int option" where
  "parseBigIntFromString s = (if \<not> integerPattern s then None else Some (BigInt_of_string s))"

definition toBigIntOrUndefined :: "numeric option \<Rightarrow> int option" where
  "toBigIntOrUndefined v =
     (case v of
        Some (NBig i) \<Rightarrow> Some i
      | Some (NNum n) \<Rightarrow> (if is_finite n \<and> is_integer n then Some (BigInt_of_number n) else None)
      | None \<Rightarrow> None)"

definition clampBigInt :: "int \<Rightarrow> int option \<Rightarrow> int option \<Rightarrow> int" where
  "clampBigInt v mn mx =
     (if mn \<noteq> None \<and> v < the mn then the mn
      else if mx \<noteq> None \<and> v > the mx then the mx
      else v)"

definition getTotalDigits :: "string \<Rightarrow> nat" where
  "getTotalDigits s = length (remove1 CHR ''.'' s)"

definition isValidNumber :: "number option \<Rightarrow> string \<Rightarrow> bool" where
  "isValidNumber fv s =
     ((case fv of Some f \<Rightarrow> num_less f MAX_SAFE_INTEGER | None \<Rightarrow> False) \<and>
      fv \<noteq> Some NaN \<and> getTotalDigits s < 14 \<and> s \<noteq> [])"

definition isInRange :: "number option \<Rightarrow> number option \<Rightarrow> number option \<Rightarrow> bool" where
  "isInRange v mn mx =
     (case v of
        None \<Rightarrow> True
      | Some x \<Rightarrow>
          (let minValid = (mn = None \<or> num_le (the mn) x);
               maxValid = (mx = None \<or> num_le x (the mx))
           in minValid \<and> maxValid))"

text \<open>
  Modelled from the spec: \<open>clamp\<close> of \<open>@mantine/hooks\<close>, which the component imports
  and which is not among the sources. The spec: ``constrain a value to lie within
  \<open>[min, max]\<close>, leaving it unchanged if already in range''; an absent bound does not
  constrain.
\<close>

definition clamp :: "number \<Rightarrow> number option \<Rightarrow> number option \<Rightarrow> number" where
  "clamp v mn mx =
     (if mn \<noteq> None \<and> num_less v (the mn) then the mn
      else if mx \<noteq> None \<and> num_less (the mx) v then the mx
      else v)"

definition value_toString :: "js_value \<Rightarrow> string" where
  "value_toString v =
     (case v of Str s \<Rightarrow> s | Num n \<Rightarrow> number_toString n | Big i \<Rightarrow> bigint_toString i)"

definition clampAndSanitizeInput :: "js_value \<Rightarrow> number option \<Rightarrow> number option \<Rightarrow> js_value" where
  "clampAndSanitizeInput sanitizedValue mx mn =
     (let stringValue = value_toString sanitizedValue;
          hasTrailingDecimalSeparator = trailingDecimalSeparatorPattern stringValue;
          replaced = strip_leading_zeros stringValue;
          parsedValue = parseFloat replaced
      in if parsedValue = NaN then Str replaced
         else if num_less MAX_SAFE_INTEGER parsedValue then
           (case mx of Some m \<Rightarrow> Num m | None \<Rightarrow> Str replaced)
         else (let clamped = clamp parsedValue mn mx
               in if hasTrailingDecimalSeparator
                  then Str (strip_leading_zeros (number_toString clamped) @ ''.'')
                  else Num clamped))"

definition clampAndSanitizeBigIntInput ::
  "string \<Rightarrow> int option \<Rightarrow> int option \<Rightarrow> clamp_behavior \<Rightarrow> js_value" where
  "clampAndSanitizeBigIntInput sanitizedValue mn mx cb =
     (if sanitizedValue = [] \<or> sanitizedValue = ''-'' then Str sanitizedValue
      else (case parseBigIntFromString sanitizedValue of
              None \<Rightarrow> Str sanitizedValue
            | Some parsed \<Rightarrow> Big (if cb = blur then clampBigInt parsed mn mx else parsed)))"

subsection \<open>Values derived from the props in the component body\<close>

definition minNumber :: "props \<Rightarrow> number option" where
  "minNumber p = (case min_prop p of Some (NNum n) \<Rightarrow> Some n | _ \<Rightarrow> None)"

definition maxNumber :: "props \<Rightarrow> number option" where
  "maxNumber p = (case max_prop p of Some (NNum n) \<Rightarrow> Some n | _ \<Rightarrow> None)"

definition stepNumber :: "props \<Rightarrow> number" where
  "stepNumber p = (case step p of NNum n \<Rightarrow> n | _ \<Rightarrow> Fin 1)"

definition startValueNumber :: "props \<Rightarrow> number" where
  "startValueNumber p = (case startValue p of NNum n \<Rightarrow> n | _ \<Rightarrow> Fin 0)"

definition minBigInt :: "props \<Rightarrow> int option" where
  "minBigInt p = toBigIntOrUndefined (min_prop p)"

definition maxBigInt :: "props \<Rightarrow> int option" where
  "maxBigInt p = toBigIntOrUndefined (max_prop p)"

definition stepBigInt :: "props \<Rightarrow> int" where
  "stepBigInt p = (case toBigIntOrUndefined (Some (step p)) of Some i \<Rightarrow> i | None \<Rightarrow> 1)"

definition startValueBigInt :: "props \<Rightarrow> int" where
  "startValueBigInt p =
     (case toBigIntOrUndefined (Some (startValue p)) of Some i \<Rightarrow> i | None \<Rightarrow> 0)"

subsection \<open>The sanitizer: \<open>parseBigIntOrString\<close> and \<open>handleValueChange\<close>\<close>

definition parseBigIntOrString :: "props \<Rightarrow> string \<Rightarrow> js_value" where
  "parseBigIntOrString p inputValue =
     (if \<not> isValidBigIntString inputValue (allowNegative p) \<or>
         (allowLeadingZeros p \<and> leadingZerosPattern inputValue)
      then Str inputValue
      else (case parseBigIntFromString inputValue of
              Some parsed \<Rightarrow> Big parsed
            | None \<Rightarrow> Str inputValue))"

definition isSafeInteger :: "number \<Rightarrow> bool" where
  "isSafeInteger n \<longleftrightarrow>
     is_integer n \<and> num_le (Fin (- 9007199254740991)) n \<and> num_le n (Fin 9007199254740991)"

definition getBigIntFloatValue :: "int \<Rightarrow> number option" where
  "getBigIntFloatValue inputValue =
     (let numericValue = fl (of_int inputValue)
      in if isSafeInteger numericValue then Some numericValue else None)"

text \<open>The \<open>source\<close> field of the event info that comes with a payload.\<close>

datatype source = src_event | src_prop

definition handleValueChange ::
  "props \<Rightarrow> bool \<Rightarrow> NumberFormatValues \<Rightarrow> source \<Rightarrow> effects" where
  "handleValueChange p isBigIntMode payload src =
     no_effects
       \<lparr>stored :=
          (if src = src_event then
             (if isBigIntMode then Some (parseBigIntOrString p (text_value payload))
              else Some
                (if isValidNumber (floatValue payload) (text_value payload) \<and>
                    \<not> leadingDecimalZeroPattern (text_value payload) \<and>
                    \<not> (if allowLeadingZeros p then leadingZerosPattern (text_value payload)
                       else False) \<and>
                    \<not> trailingZerosPattern (text_value payload) \<and>
                    \<not> trailingDecimalSeparatorPattern (text_value payload)
                 then Num (the (floatValue payload))
                 else Str (text_value payload)))
           else None),
        emitted := Some payload\<rparr>"

subsection \<open>\<open>getDecimalPlaces\<close>\<close>

text \<open>
  \<open>String(v).match(/(?:\.(\d+))?(?:[eE]([+-]?\d+))?$/)\<close>: the first position from which
  an optional fraction and an optional exponent reach the end of the string. Both
  groups are greedy and no shorter match of a group can reach the end where the longest
  does not, so the scan at one position is deterministic. The empty match at the end
  always exists. The result is \<open>max(0, length of group 1 - value of group 2)\<close>.
\<close>

definition scan_fraction :: "string \<Rightarrow> nat \<times> string" where
  "scan_fraction t =
     (if t \<noteq> [] \<and> hd t = CHR ''.'' \<and> takeWhile is_digit (tl t) \<noteq> []
      then (length (takeWhile is_digit (tl t)), dropWhile is_digit (tl t))
      else (0, t))"

definition dp_match_at :: "string \<Rightarrow> (nat \<times> int) option" where
  "dp_match_at t =
     (let (fr, r1) = scan_fraction t;
          (ex, r2) = (case scan_exponent r1 of None \<Rightarrow> (0, r1) | Some q \<Rightarrow> q)
      in if r2 = [] then Some (fr, ex) else None)"

fun dp_search :: "string \<Rightarrow> nat \<times> int" where
  "dp_search [] = (0, 0)"
| "dp_search (c # t) =
     (case dp_match_at (c # t) of Some r \<Rightarrow> r | None \<Rightarrow> dp_search t)"

definition getDecimalPlaces :: "js_value \<Rightarrow> nat" where
  "getDecimalPlaces inputValue =
     (let (fr, ex) = dp_search (value_toString inputValue)
      in nat (max 0 (int fr - ex)))"

subsection \<open>The stepper: \<open>incrementRef.current\<close> and \<open>decrementRef.current\<close>\<close>

text \<open>The common tail of both big-integer branches: store, notify.\<close>

definition finish_bigint :: "effects \<Rightarrow> int \<Rightarrow> effects" where
  "finish_bigint eff val =
     (let formatted = bigint_toString val
      in eff\<lparr>stored := Some (Big val),
             emitted := Some \<lparr>floatValue = getBigIntFloatValue val,
                              formattedValue = formatted, text_value = formatted\<rparr>\<rparr>)"

text \<open>
  The common tail of both number branches: \<open>val.toFixed(maxPrecision)\<close>, which may
  throw, then \<open>setValue(parseFloat(formattedValue))\<close> and the notification.
\<close>

definition finish_number :: "effects \<Rightarrow> number \<Rightarrow> nat \<Rightarrow> effects" where
  "finish_number eff val maxPrecision =
     (case toFixed val maxPrecision of
        Inl e \<Rightarrow> eff\<lparr>threw := Some e\<rparr>
      | Inr formatted \<Rightarrow>
          eff\<lparr>stored := Some (Num (parseFloat formatted)),
              emitted := Some \<lparr>floatValue = Some (parseFloat formatted),
                               formattedValue = formatted, text_value = formatted\<rparr>\<rparr>)"

text \<open>\<open>Number(_value)\<close> on the stored value.\<close>

definition Number_of_value :: "js_value \<Rightarrow> number" where
  "Number_of_value v =
     (case v of Num n \<Rightarrow> n | Str s \<Rightarrow> Number_of_string s | Big i \<Rightarrow> fl (of_int i))"

definition bump_max :: "effects \<Rightarrow> bool \<Rightarrow> effects" where
  "bump_max eff b = (if b then eff\<lparr>maxReached := maxReached eff + 1\<rparr> else eff)"

definition bump_min :: "effects \<Rightarrow> bool \<Rightarrow> effects" where
  "bump_min eff b = (if b then eff\<lparr>minReached := minReached eff + 1\<rparr> else eff)"

definition increment_bigint :: "props \<Rightarrow> js_value \<Rightarrow> effects" where
  "increment_bigint p v =
     (case canStepBigInt v (allowNegative p) of
        Inl e \<Rightarrow> no_effects\<lparr>threw := Some e\<rparr>
      | Inr False \<Rightarrow> no_effects
      | Inr True \<Rightarrow>
          (case v of
             Big currentValue \<Rightarrow>
               (let incrementedValue = currentValue + stepBigInt p;
                    over = (maxBigInt p \<noteq> None \<and> incrementedValue > the (maxBigInt p))
                in finish_bigint (bump_max no_effects over)
                     (if over then the (maxBigInt p) else incrementedValue))
           | Str currentValue \<Rightarrow>
               (if currentValue \<noteq> [] then
                  (case parseBigIntFromString currentValue of
                     None \<Rightarrow> no_effects
                   | Some parsed \<Rightarrow>
                       (let incrementedValue = parsed + stepBigInt p;
                            over = (maxBigInt p \<noteq> None \<and> incrementedValue > the (maxBigInt p))
                        in finish_bigint (bump_max no_effects over)
                             (if over then the (maxBigInt p) else incrementedValue)))
                else finish_bigint no_effects
                       (clampBigInt (startValueBigInt p) (minBigInt p) (maxBigInt p)))
           | Num _ \<Rightarrow>
               finish_bigint no_effects
                 (clampBigInt (startValueBigInt p) (minBigInt p) (maxBigInt p))))"

definition increment_number :: "props \<Rightarrow> js_value \<Rightarrow> effects" where
  "increment_number p v =
     (if \<not> canStep v then no_effects
      else
        (let currentValuePrecision = getDecimalPlaces v;
             stepPrecision = getDecimalPlaces (Num (stepNumber p));
             maxPrecision = max currentValuePrecision stepPrecision;
             factor = pow10 maxPrecision
         in if \<not> isNumberString v \<and> (case v of Num n \<Rightarrow> n = NaN | _ \<Rightarrow> True) then
              finish_number no_effects
                (clamp (startValueNumber p) (minNumber p) (maxNumber p)) maxPrecision
            else
              (let incrementedValue =
                     num_div
                       (num_add (Math_round (num_mult (Number_of_value v) factor))
                                (Math_round (num_mult (stepNumber p) factor)))
                       factor
               in case maxNumber p of
                    Some mx \<Rightarrow>
                      finish_number (bump_max no_effects (num_less mx incrementedValue))
                        (if num_le incrementedValue mx then incrementedValue else mx)
                        maxPrecision
                  | None \<Rightarrow> finish_number no_effects incrementedValue maxPrecision)))"

definition increment :: "props \<Rightarrow> bool \<Rightarrow> js_value \<Rightarrow> effects" where
  "increment p isBigIntMode v =
     (if isBigIntMode then increment_bigint p v else increment_number p v)"

definition decrement_bigint :: "props \<Rightarrow> js_value \<Rightarrow> effects" where
  "decrement_bigint p v =
     (case canStepBigInt v (allowNegative p) of
        Inl e \<Rightarrow> no_effects\<lparr>threw := Some e\<rparr>
      | Inr False \<Rightarrow> no_effects
      | Inr True \<Rightarrow>
          (let minValue = (if minBigInt p \<noteq> None then minBigInt p
                           else if \<not> allowNegative p then Some 0 else None)
           in case v of
                Big currentValue \<Rightarrow>
                  (let decrementedValue = currentValue - stepBigInt p;
                       under = (minValue \<noteq> None \<and> decrementedValue < the minValue)
                   in finish_bigint (bump_min no_effects under)
                        (if under then the minValue else decrementedValue))
              | Str currentValue \<Rightarrow>
                  (if currentValue \<noteq> [] then
                     (case parseBigIntFromString currentValue of
                        None \<Rightarrow> no_effects
                      | Some parsed \<Rightarrow>
                          (let decrementedValue = parsed - stepBigInt p;
                               under = (minValue \<noteq> None \<and> decrementedValue < the minValue)
                           in finish_bigint (bump_min no_effects under)
                                (if under then the minValue else decrementedValue)))
                   else finish_bigint no_effects
                          (clampBigInt (startValueBigInt p) minValue (maxBigInt p)))
              | Num _ \<Rightarrow>
                  finish_bigint no_effects
                    (clampBigInt (startValueBigInt p) minValue (maxBigInt p))))"

definition decrement_number :: "props \<Rightarrow> js_value \<Rightarrow> effects" where
  "decrement_number p v =
     (if \<not> canStep v then no_effects
      else
        (let minValue = (if minNumber p \<noteq> None then the (minNumber p)
                         else if \<not> allowNegative p then Fin 0 else MIN_SAFE_INTEGER);
             currentValuePrecision = getDecimalPlaces v;
             stepPrecision = getDecimalPlaces (Num (stepNumber p));
             maxPrecision = max currentValuePrecision stepPrecision;
             factor = pow10 maxPrecision
         in if (\<not> isNumberString v \<and> (case v of Num _ \<Rightarrow> False | _ \<Rightarrow> True)) \<or> v = Num NaN then
              finish_number no_effects
                (clamp (startValueNumber p) (Some minValue) (maxNumber p)) maxPrecision
            else
              (let decrementedValue =
                     num_div
                       (num_sub (Math_round (num_mult (Number_of_value v) factor))
                                (Math_round (num_mult (stepNumber p) factor)))
                       factor;
                   under = num_less decrementedValue minValue
               in finish_number (bump_min no_effects under)
                    (if under then minValue else decrementedValue) maxPrecision)))"

definition decrement :: "props \<Rightarrow> bool \<Rightarrow> js_value \<Rightarrow> effects" where
  "decrement p isBigIntMode v =
     (if isBigIntMode then decrement_bigint p v else decrement_number p v)"

subsection \<open>The blur normalizer: \<open>handleBlur\<close>\<close>

text \<open>\<open>a !== b\<close>: \<open>NaN\<close> differs from itself.\<close>

definition strict_neq :: "js_value \<Rightarrow> js_value \<Rightarrow> bool" where
  "strict_neq a b \<longleftrightarrow> a \<noteq> b \<or> a = Num NaN"

definition handleBlur :: "props \<Rightarrow> bool \<Rightarrow> js_value \<Rightarrow> effects" where
  "handleBlur p isBigIntMode v =
     (let sanitizedValue =
            (if isBigIntMode then
               (let s1 = (case v of
                            Big i \<Rightarrow> if clampBehavior p = blur
                                     then Big (clampBigInt i (minBigInt p) (maxBigInt p)) else v
                          | _ \<Rightarrow> v)
                in case s1 of
                     Str s \<Rightarrow> if trimLeadingZeroesOnBlur p
                              then clampAndSanitizeBigIntInput s (minBigInt p) (maxBigInt p)
                                     (clampBehavior p)
                              else s1
                   | _ \<Rightarrow> s1)
             else
               (let s1 = (case v of
                            Num n \<Rightarrow> if clampBehavior p = blur
                                     then Num (clamp n (minNumber p) (maxNumber p)) else v
                          | _ \<Rightarrow> v)
                in case s1 of
                     Str s \<Rightarrow> if trimLeadingZeroesOnBlur p \<and> getDecimalPlaces s1 < 15
                              then clampAndSanitizeInput s1 (maxNumber p) (minNumber p)
                              else s1
                   | _ \<Rightarrow> s1))
      in if strict_neq v sanitizedValue then no_effects\<lparr>stored := Some sanitizedValue\<rparr>
         else no_effects)"

subsection \<open>The entry gate: the \<open>isAllowed\<close> callback given to \<open>NumericFormat\<close>\<close>

definition isAllowed_gate :: "props \<Rightarrow> bool \<Rightarrow> NumberFormatValues \<Rightarrow> bool" where
  "isAllowed_gate p isBigIntMode val =
     (let userAllowed = (case isAllowed p of Some f \<Rightarrow> f val | None \<Rightarrow> True)
      in if \<not> userAllowed then False
         else if clampBehavior p \<noteq> strict then True
         else if \<not> isBigIntMode then isInRange (floatValue val) (minNumber p) (maxNumber p)
         else if text_value val = [] \<or> text_value val = ''-'' then True
         else (case parseBigIntFromString (text_value val) of
                 None \<Rightarrow> True
               | Some parsed \<Rightarrow>
                   (minBigInt p = None \<or> parsed \<ge> the (minBigInt p)) \<and>
                   (maxBigInt p = None \<or> parsed \<le> the (maxBigInt p))))"

subsection \<open>The component instance over its lifetime\<close>

text \<open>
  \<open>valueModeRef\<close> and the state cell of \<open>useUncontrolled\<close> (called with \<open>value\<close>,
  \<open>defaultValue\<close> and \<open>finalValue: ''\<close>) are what an instance keeps between renders.
  Every render runs the latch update of the component body before any handler it
  creates can be called. The stored value \<open>_value\<close> is the \<open>value\<close> prop when the
  component is controlled and the state cell otherwise; \<open>setValue\<close> writes the cell
  only when uncontrolled.
\<close>

record component =
  valueMode :: NumberInputMode
  uncontrolled :: js_value

definition render :: "props \<Rightarrow> component \<Rightarrow> component" where
  "render p c =
     (case value_prop p of
        Some (Big _) \<Rightarrow> c\<lparr>valueMode := bigint_mode\<rparr>
      | Some (Num _) \<Rightarrow> c\<lparr>valueMode := number_mode\<rparr>
      | _ \<Rightarrow> c)"

text \<open>The first render creates the two cells and runs the same latch update.\<close>

definition mount :: "props \<Rightarrow> component" where
  "mount p =
     render p
       \<lparr>valueMode = (if isBigIntValue (value_prop p) \<or> isBigIntValue (defaultValue p)
                      then bigint_mode else number_mode),
        uncontrolled = (case defaultValue p of Some d \<Rightarrow> d | None \<Rightarrow> Str [])\<rparr>"

definition current_value :: "props \<Rightarrow> component \<Rightarrow> js_value" where
  "current_value p c = (case value_prop p of Some v \<Rightarrow> v | None \<Rightarrow> uncontrolled c)"

datatype event = Keystroke NumberFormatValues | Increment | Decrement | Blur

text \<open>
  A keystroke reaches \<open>handleValueChange\<close> only through \<open>NumericFormat\<close>, which asks
  the \<open>isAllowed\<close> callback first: ``if this function returns false, the onChange will
  not be called and the input value will not change''.
\<close>

definition handle :: "props \<Rightarrow> component \<Rightarrow> event \<Rightarrow> effects" where
  "handle p c ev =
     (let isBigIntMode = (valueMode c = bigint_mode); v = current_value p c
      in case ev of
           Keystroke payload \<Rightarrow>
             if isAllowed_gate p isBigIntMode payload
             then handleValueChange p isBigIntMode payload src_event
             else no_effects
         | Increment \<Rightarrow> increment p isBigIntMode v
         | Decrement \<Rightarrow> decrement p isBigIntMode v
         | Blur \<Rightarrow> handleBlur p isBigIntMode v)"

definition commit :: "props \<Rightarrow> component \<Rightarrow> effects \<Rightarrow> component" where
  "commit p c eff =
     (case stored eff of
        Some v \<Rightarrow> if value_prop p = None then c\<lparr>uncontrolled := v\<rparr> else c
      | None \<Rightarrow> c)"



text \<open>
  The stored value once a handler has run, for an uncontrolled instance or a parent that
  passes every \<open>onChange\<close> value back: the argument of \<open>setValue\<close>, or the old value
  when \<open>setValue\<close> was not called.
\<close>

definition value_after :: "js_value \<Rightarrow> effects \<Rightarrow> js_value" where
  "value_after v eff = (case stored eff of Some w \<Rightarrow> w | None \<Rightarrow> v)"

definition number_valued :: "js_value option \<Rightarrow> bool" where
  "number_valued v = (case v of Some (Num _) \<Rightarrow> True | _ \<Rightarrow> False)"

section \<open>Evaluation rules\<close>

text \<open>
  The recursive functions are unfolded on numerals only, and \<open>let\<close> and \<open>case\<close> are
  simplified head first, so that the simplifier runs the definitions like a program.
\<close>

lemma floor_rat_numeral_div [simp]:
  "\<lfloor>numeral a / numeral b :: rat\<rfloor> = numeral a div numeral b"
  by (metis floor_divide_of_int_eq of_int_numeral)

lemma bitlen_pos: "0 < n \<Longrightarrow> bitlen n = Suc (bitlen (n div 2))"
  by (subst bitlen.simps) simp

lemma bitlen_0: "bitlen 0 = 0"
  by (simp add: bitlen.simps)

lemma declen_pos: "0 < n \<Longrightarrow> declen n = Suc (declen (n div 10))"
  by (subst declen.simps) simp

lemma declen_0: "declen 0 = 0"
  by (simp add: declen.simps)

lemma digits_of_nat_small: "n < 10 \<Longrightarrow> digits_of_nat n = [digit_char n]"
  by (subst digits_of_nat.simps) simp

lemma digits_of_nat_big:
  "10 \<le> n \<Longrightarrow> digits_of_nat n = digits_of_nat (n div 10) @ [digit_char (n mod 10)]"
  by (subst digits_of_nat.simps) simp

lemma replicate_numeral: "replicate (numeral k) x = x # replicate (pred_numeral k) x"
  by (simp add: numeral_eq_Suc)

lemmas eval_number =
  replicate_numeral numeral_2_eq_2 [symmetric]
  fl_def ilog2_def pow2_def round_half_even_def Let_def bitlen_0
  bitlen_pos [of "numeral k" for k] bitlen_pos [of 1, simplified]
  num_less_def num_le_def num_mult_def num_div_def num_sub_def pow10_def
  MAX_SAFE_INTEGER_def MIN_SAFE_INTEGER_def

lemmas eval_string =
  is_digit_def strip_minus_def starts_with_def integerPattern_def all_zeros_def
  leadingDecimalZeroPattern_def leadingZerosPattern_def trailingZerosPattern_def
  trailingDecimalSeparatorPattern_def strip_leading_zeros_def
  digits_of_nat_small digits_of_nat_big [of "numeral k" for k]
  digit_char_def digit_val_def nat_of_digits_def bigint_toString_def BigInt_of_string_def
  declen_0 declen_pos [of "numeral k" for k] declen_pos [of 1, simplified]
  pow10r_def dec_exponent_def sig_candidates_def roundtrips_def strip_trailing_zeros_def
  shortest_digits_def format_digits_def pos_toString_def fixed_digits_def toFixed_def
  is_space_def scan_sign_def scan_exponent_def scan_decimal_def parseFloat_def trim_def
  radix_digit_def radix_value_def Number_of_string_def
  shortest.simps [of _ _ "numeral k" for k] shortest.simps [of _ _ "Suc 0"]

lemmas eval_component =
  default_props_def no_effects_def isNumberString_def isBigIntValue_def canStep_def
  isValidBigIntString_def canStepBigInt_def parseBigIntFromString_def
  toBigIntOrUndefined_def clampBigInt_def getTotalDigits_def isValidNumber_def
  isInRange_def clamp_def value_toString_def clampAndSanitizeInput_def
  clampAndSanitizeBigIntInput_def minNumber_def maxNumber_def stepNumber_def
  startValueNumber_def minBigInt_def maxBigInt_def stepBigInt_def startValueBigInt_def
  parseBigIntOrString_def isSafeInteger_def getBigIntFloatValue_def handleValueChange_def
  scan_fraction_def dp_match_at_def getDecimalPlaces_def finish_bigint_def
  finish_number_def Number_of_value_def bump_max_def bump_min_def increment_bigint_def
  increment_number_def increment_def decrement_bigint_def decrement_number_def
  decrement_def strict_neq_def handleBlur_def isAllowed_gate_def render_def mount_def
  current_value_def handle_def commit_def value_after_def number_valued_def

lemma floor_rat_neg_numeral_div [simp]:
  "\<lfloor>- (numeral a / numeral b) :: rat\<rfloor> = - numeral a div numeral b"
  by (metis floor_divide_of_int_eq of_int_numeral of_int_minus minus_divide_left)

lemma floor_rat_one_div [simp]: "\<lfloor>1 / numeral b :: rat\<rfloor> = 1 div numeral b"
  by (metis floor_divide_of_int_eq of_int_numeral of_int_1)

section \<open>Integers are stepped exactly\<close>

lemma bitlen_bounds: "0 < n \<Longrightarrow> 2 ^ (bitlen n - 1) \<le> n \<and> n < 2 ^ bitlen n"
proof (induction n rule: bitlen.induct)
  case (1 n)
  show ?case
  proof (cases "n = 1")
    case True
    then show ?thesis by (simp add: bitlen_pos bitlen_0)
  next
    case False
    with "1.prems" have h: "0 < n div 2" by simp
    from "1.IH" "1.prems" h have ih: "2 ^ (bitlen (n div 2) - 1) \<le> n div 2 \<and> n div 2 < 2 ^ bitlen (n div 2)"
      by simp
    have bl: "bitlen n = Suc (bitlen (n div 2))" using "1.prems" by (rule bitlen_pos)
    have pos: "0 < bitlen (n div 2)" using h by (simp add: bitlen_pos)
    then obtain j where j: "bitlen (n div 2) = Suc j" by (cases "bitlen (n div 2)") auto
    from ih j have a: "2 * 2 ^ j \<le> 2 * (n div 2)" and b: "n div 2 < 2 * 2 ^ j" by simp_all
    have "2 * (n div 2) \<le> n" by simp
    with a have lo: "2 * 2 ^ j \<le> n" by linarith
    from b have "n div 2 + 1 \<le> 2 * 2 ^ j" by simp
    then have "2 * (n div 2) + 2 \<le> 2 * (2 * 2 ^ j)" by simp
    moreover have "n < 2 * (n div 2) + 2" by presburger
    ultimately have hi: "n < 2 * (2 * 2 ^ j)" by linarith
    show ?thesis using lo hi by (simp add: bl j)
  qed
qed

lemma bitlen_le: "0 \<le> n \<Longrightarrow> n < 2 ^ k \<Longrightarrow> bitlen n \<le> k"
proof (rule ccontr)
  assume n: "0 \<le> n" "n < 2 ^ k" and c: "\<not> bitlen n \<le> k"
  then have "0 < n" by (cases "n = 0") (auto simp: bitlen_0)
  from bitlen_bounds [OF this] have "(2::int) ^ (bitlen n - 1) \<le> n" by simp
  moreover from c have "k \<le> bitlen n - 1" by simp
  then have "(2::int) ^ k \<le> 2 ^ (bitlen n - 1)" by (rule power_increasing) simp
  ultimately show False using n by linarith
qed

lemma round_half_even_of_int: "round_half_even (of_int m) = m"
  by (simp add: round_half_even_def)

lemma round_half_even_le: "y \<le> of_int m \<Longrightarrow> round_half_even y \<le> m"
proof -
  assume y: "y \<le> of_int m"
  have f: "\<lfloor>y\<rfloor> \<le> m" using y by (simp add: floor_le_iff)
  show ?thesis
  proof (cases "y = of_int \<lfloor>y\<rfloor>")
    case True
    then show ?thesis using f by (simp add: round_half_even_def Let_def)
  next
    case False
    then have "of_int \<lfloor>y\<rfloor> < y" by (metis of_int_floor_le order_less_le)
    with y have "of_int \<lfloor>y\<rfloor> < (of_int m :: rat)" by linarith
    then have "\<lfloor>y\<rfloor> < m" by simp
    then show ?thesis by (simp add: round_half_even_def Let_def)
  qed
qed

lemma ilog2_of_int: "1 \<le> m \<Longrightarrow> ilog2 (of_int m) = int (bitlen m) - 1"
  by (simp add: ilog2_def)

lemma fl_of_int_pos:
  assumes "1 \<le> m" "m < 2 ^ 53"
  shows "fl (of_int m) = Fin (of_int m)"
proof -
  have bl: "bitlen m \<le> 53" using assms by (intro bitlen_le) auto
  have blpos: "0 < bitlen m" using assms by (simp add: bitlen_pos)
  define j where "j = 53 - bitlen m"
  have e: "max (ilog2 \<bar>of_int m\<bar> - 52) (- 1074) = - int j"
    using assms bl blpos by (simp add: ilog2_of_int j_def abs_of_pos)
  have p: "pow2 (- int j) = 1 / 2 ^ j" by (simp add: pow2_def)
  have q: "\<bar>of_int m :: rat\<bar> / (1 / 2 ^ j) = of_int (m * 2 ^ j)"
    using assms by simp
  have r: "of_int (round_half_even (\<bar>of_int m\<bar> / pow2 (- int j))) * pow2 (- int j) = (of_int m :: rat)"
    unfolding p q round_half_even_of_int by simp
  have small: "\<not> (2 ^ 1024 \<le> (of_int m :: rat))"
  proof -
    have "(of_int m :: rat) < of_int (2 ^ 53)" using assms by (simp only: of_int_less_iff)
    then show ?thesis by simp
  qed
  have nz: "(of_int m :: rat) \<noteq> 0" "0 < (of_int m :: rat)" using assms by simp_all
  show ?thesis
    unfolding fl_def Let_def e r using nz small by simp
qed


lemma fl_neg: "fl (- q) = num_neg (fl q)"
  by (simp add: fl_def Let_def)

lemma fl_two_53: "fl 9007199254740992 = Fin 9007199254740992"
  by (simp add: eval_number)

lemma fl_of_int:
  assumes "\<bar>m\<bar> \<le> 2 ^ 53"
  shows "fl (of_int m) = Fin (of_int m)"
proof -
  have pos: "fl (of_int k) = Fin (of_int k)" if "1 \<le> k" "k \<le> 2 ^ 53" for k :: int
  proof (cases "k = 2 ^ 53")
    case True
    then show ?thesis using fl_two_53 by simp
  next
    case False
    with that have "k < 2 ^ 53" by simp
    with that show ?thesis by (intro fl_of_int_pos)
  qed
  consider "m = 0" | "1 \<le> m" | "1 \<le> - m" by linarith
  then show ?thesis
  proof cases
    case 1
    then show ?thesis by (simp add: fl_def)
  next
    case 2
    with assms show ?thesis by (intro pos) auto
  next
    case 3
    with assms have "fl (of_int (- m)) = Fin (of_int (- m))" by (intro pos) auto
    then have "fl (- of_int m) = Fin (- of_int m)" by simp
    then show ?thesis by (simp add: fl_neg) (cases "fl (of_int m)"; simp)
  qed
qed

subsection \<open>digits\<close>

lemma is_digit_digit_char: "d < 10 \<Longrightarrow> is_digit (digit_char d)"
proof -
  assume "d < 10"
  then have "d \<in> {0, 1, 2, 3, 4, 5, 6, 7, 8, 9}" by auto
  then show ?thesis by (auto simp: is_digit_def digit_char_def)
qed


lemma digits_of_nat_all_digits: "list_all is_digit (digits_of_nat n)"
proof (induction n rule: digits_of_nat.induct)
  case (1 n)
  show ?case
  proof (cases "n < 10")
    case True
    then show ?thesis by (simp add: digits_of_nat_small is_digit_digit_char)
  next
    case False
    then show ?thesis using "1.IH" by (simp add: digits_of_nat_big is_digit_digit_char)
  qed
qed




lemma length_digits_of_nat: "n < 10 ^ j \<Longrightarrow> 0 < j \<Longrightarrow> length (digits_of_nat n) \<le> j"
proof (induction n arbitrary: j rule: digits_of_nat.induct)
  case (1 n)
  show ?case
  proof (cases "n < 10")
    case True
    then show ?thesis using "1.prems" by (simp add: digits_of_nat_small)
  next
    case False
    from "1.prems" obtain i where j: "j = Suc i" by (cases j) auto
    have i: "0 < i" using False "1.prems" j by (cases i) auto
    have "n div 10 < 10 ^ i" using "1.prems" j by (simp add: less_mult_imp_div_less mult.commute)
    with "1.IH" False i have "length (digits_of_nat (n div 10)) \<le> i" by simp
    then show ?thesis using False by (simp add: digits_of_nat_big j)
  qed
qed




lemma digit_not_special:
  "is_digit c \<Longrightarrow> c \<noteq> CHR ''.'' \<and> c \<noteq> CHR ''-'' \<and> c \<noteq> CHR ''+'' \<and> c \<noteq> CHR ''e'' \<and>
     c \<noteq> CHR ''E'' \<and> c \<noteq> CHR ''I'' \<and> \<not> is_space c"
  by (auto simp: is_digit_def is_space_def)

subsection \<open>parsing digit strings\<close>









subsection \<open>toString of an integer\<close>

lemma declen_bounds: "0 < n \<Longrightarrow> 10 ^ (declen n - 1) \<le> n \<and> n < 10 ^ declen n"
proof (induction n rule: declen.induct)
  case (1 n)
  show ?case
  proof (cases "n < 10")
    case True
    then have "n div 10 = 0" using "1.prems" by simp
    then have "declen n = 1" using "1.prems" by (simp add: declen_pos declen_0)
    then show ?thesis using True "1.prems" by simp
  next
    case False
    then have h: "0 < n div 10" by simp
    from "1.IH" "1.prems" h
    have ih: "10 ^ (declen (n div 10) - 1) \<le> n div 10 \<and> n div 10 < 10 ^ declen (n div 10)"
      by simp
    have dl: "declen n = Suc (declen (n div 10))" using "1.prems" by (rule declen_pos)
    have "0 < declen (n div 10)" using h by (simp add: declen_pos)
    then obtain j where j: "declen (n div 10) = Suc j" by (cases "declen (n div 10)") auto
    from ih j have a: "10 * 10 ^ j \<le> 10 * (n div 10)" and b: "n div 10 < 10 * 10 ^ j" by simp_all
    have "10 * (n div 10) \<le> n" by simp
    with a have lo: "10 * 10 ^ j \<le> n" by linarith
    from b have "n div 10 + 1 \<le> 10 * 10 ^ j" by simp
    then have "10 * (n div 10) + 10 \<le> 10 * (10 * 10 ^ j)" by simp
    moreover have "n < 10 * (n div 10) + 10" by presburger
    ultimately have hi: "n < 10 * (10 * 10 ^ j)" by linarith
    show ?thesis using lo hi by (simp add: dl j)
  qed
qed

lemma declen_le: "0 < n \<Longrightarrow> n < 10 ^ k \<Longrightarrow> declen n \<le> k"
proof (rule ccontr)
  assume n: "0 < n" "n < 10 ^ k" and c: "\<not> declen n \<le> k"
  from declen_bounds [OF n(1)] have "(10::int) ^ (declen n - 1) \<le> n" by simp
  moreover from c have "k \<le> declen n - 1" by simp
  then have "(10::int) ^ k \<le> 10 ^ (declen n - 1)" by (rule power_increasing) simp
  ultimately show False using n by linarith
qed

lemma dec_exponent_of_int: "1 \<le> m \<Longrightarrow> dec_exponent (of_int m) = int (declen m)"
  by (simp add: dec_exponent_def)

lemma set_sig_candidates:
  "set (sig_candidates x n k) = {\<lfloor>x / pow10r (n - int k)\<rfloor>, \<lfloor>x / pow10r (n - int k)\<rfloor> + 1}"
  by (auto simp: sig_candidates_def Let_def)

lemma sig_candidates_nonempty: "sig_candidates x n k \<noteq> []"
  by (auto simp: sig_candidates_def Let_def)

lemma shortest_cand:
  "fst (shortest x n k0) \<in> set (sig_candidates x n (snd (shortest x n k0)))"
proof (induction x n k0 rule: shortest.induct)
  case (1 x n k)
  show ?case
  proof (cases "17 \<le> k")
    case True
    then show ?thesis
      by (subst (1 2) shortest.simps) (simp add: sig_candidates_nonempty)
  next
    case False
    show ?thesis
    proof (cases "filter (roundtrips x n k) (sig_candidates x n k)")
      case Nil
      with False "1.IH" show ?thesis
        by (subst (1 2) shortest.simps) simp
    next
      case (Cons s rest)
      then have "s \<in> set (filter (roundtrips x n k) (sig_candidates x n k))" by simp
      then have "s \<in> set (sig_candidates x n k)" by simp
      with False Cons show ?thesis
        by (subst (1 2) shortest.simps) simp
    qed
  qed
qed

lemma shortest_ge: "k0 \<le> snd (shortest x n k0)"
proof (induction x n k0 rule: shortest.induct)
  case (1 x n k)
  show ?case
  proof (cases "17 \<le> k")
    case True
    then show ?thesis by (subst shortest.simps) simp
  next
    case False
    show ?thesis
    proof (cases "filter (roundtrips x n k) (sig_candidates x n k)")
      case Nil
      with False "1.IH" show ?thesis by (subst shortest.simps) simp
    next
      case (Cons s rest)
      with False show ?thesis by (subst shortest.simps) simp
    qed
  qed
qed

lemma shortest_found:
  "k0 \<le> k1 \<Longrightarrow> k1 < 17 \<Longrightarrow> filter (roundtrips x n k1) (sig_candidates x n k1) \<noteq> [] \<Longrightarrow>
   snd (shortest x n k0) \<le> k1"
proof (induction x n k0 rule: shortest.induct)
  case (1 x n k)
  from "1.prems" have k: "\<not> 17 \<le> k" by simp
  show ?case
  proof (cases "filter (roundtrips x n k) (sig_candidates x n k)")
    case Nil
    with "1.prems" have "k \<noteq> k1" by auto
    with "1.prems" have "k + 1 \<le> k1" by simp
    with "1.IH" k Nil "1.prems" have "snd (shortest x n (k + 1)) \<le> k1" by simp
    with k Nil show ?thesis by (subst shortest.simps) simp
  next
    case (Cons s rest)
    with k "1.prems" show ?thesis by (subst shortest.simps) simp
  qed
qed

lemma shortest_le_17: "snd (shortest x n k0) \<le> max k0 17"
proof (induction x n k0 rule: shortest.induct)
  case (1 x n k)
  show ?case
  proof (cases "17 \<le> k")
    case True
    then show ?thesis by (subst shortest.simps) simp
  next
    case False
    show ?thesis
    proof (cases "filter (roundtrips x n k) (sig_candidates x n k)")
      case Nil
      with False "1.IH" show ?thesis by (subst shortest.simps) auto
    next
      case (Cons s rest)
      with False show ?thesis by (subst shortest.simps) simp
    qed
  qed
qed

lemma strip_trailing_zeros_props:
  "length (strip_trailing_zeros d) \<le> length d"
  "list_all is_digit d \<Longrightarrow> list_all is_digit (strip_trailing_zeros d)"
proof -
  show "length (strip_trailing_zeros d) \<le> length d"
    by (simp add: strip_trailing_zeros_def length_dropWhile_le [of _ "rev d", simplified])
  assume "list_all is_digit d"
  then have "\<forall>c \<in> set (rev d). is_digit c" by (simp add: list_all_iff)
  then have "\<forall>c \<in> set (dropWhile (\<lambda>c. c = CHR ''0'') (rev d)). is_digit c"
    using set_dropWhileD by fastforce
  then show "list_all is_digit (strip_trailing_zeros d)"
    by (simp add: strip_trailing_zeros_def list_all_iff)
qed


lemma pos_toString_of_int:
  assumes "1 \<le> m" "m \<le> 2 ^ 53"
  shows "list_all is_digit (pos_toString (of_int m))"
proof -
  let ?x = "of_int m :: rat"
  let ?n = "declen m"
  have mpos: "0 < m" using assms by simp
  have n1: "1 \<le> ?n" using mpos by (simp add: declen_pos)
  have "m < 10 ^ 16" using assms by simp
  then have n16: "?n \<le> 16" using mpos by (intro declen_le)
  have mlt: "m < 10 ^ ?n" using declen_bounds [OF mpos] by simp
  obtain s k where sk: "shortest ?x (int ?n) 1 = (s, k)" by (cases "shortest ?x (int ?n) 1")
  have k1: "1 \<le> k" using shortest_ge [of 1 ?x "int ?n"] sk by simp
  have "fl ?x = Fin ?x" using assms by (intro fl_of_int) simp
  then have rt: "roundtrips ?x (int ?n) ?n m" by (simp add: roundtrips_def pow10r_def)
  have "m \<in> set (sig_candidates ?x (int ?n) ?n)"
    by (simp add: set_sig_candidates pow10r_def)
  with rt have "m \<in> set (filter (roundtrips ?x (int ?n) ?n) (sig_candidates ?x (int ?n) ?n))"
    by simp
  then have ne: "filter (roundtrips ?x (int ?n) ?n) (sig_candidates ?x (int ?n) ?n) \<noteq> []"
    by (metis empty_iff empty_set)
  have kn: "k \<le> ?n" using shortest_found [OF _ _ ne, of 1] n1 n16 sk by simp
  define j where "j = ?n - k"
  have pw: "pow10r (int ?n - int k) = 10 ^ j" using kn by (simp add: pow10r_def j_def)
  have split: "(10::int) ^ ?n = 10 ^ j * 10 ^ k" using kn by (simp add: j_def flip: power_add)
  let ?f = "\<lfloor>?x / 10 ^ j\<rfloor>"
  have f_eq: "?f = m div 10 ^ j"
    using floor_divide_of_int_eq [of m "10 ^ j", where ?'a = rat] by simp
  have f0: "0 \<le> ?f" using mpos by (simp add: f_eq pos_imp_zdiv_nonneg_iff)
  have "m div 10 ^ j < 10 ^ k"
  proof (rule ccontr)
    assume "\<not> m div 10 ^ j < 10 ^ k"
    then have "(10::int) ^ j * 10 ^ k \<le> 10 ^ j * (m div 10 ^ j)" by simp
    also have "\<dots> \<le> m"
    proof -
      have "(10::int) ^ j * (m div 10 ^ j) + m mod 10 ^ j = m" by (rule mult_div_mod_eq)
      moreover have "0 \<le> m mod 10 ^ j" by (rule pos_mod_sign) simp
      ultimately show ?thesis by linarith
    qed
    finally show False using mlt split by simp
  qed
  then have fk: "?f + 1 \<le> 10 ^ k" by (simp add: f_eq)
  have "s \<in> {?f, ?f + 1}"
    using shortest_cand [of ?x "int ?n" 1] sk by (simp add: set_sig_candidates pw)
  with f0 fk have s0: "0 \<le> s" and sk10: "s \<le> 10 ^ k" by auto
  have "nat s < 10 ^ (k + 1)"
  proof -
    have "(0::int) < 10 ^ k" by simp
    then have "(10::int) ^ k < 10 * 10 ^ k" by linarith
    with sk10 have "s < 10 * 10 ^ k" by linarith
    then have "s < 10 ^ (k + 1)" by simp
    then show ?thesis using s0 by (simp add: nat_less_iff)
  qed
  then have ld: "length (digits_of_nat (nat s)) \<le> k + 1"
    by (intro length_digits_of_nat) simp_all
  let ?d = "digits_of_nat (nat s)"
  let ?d' = "strip_trailing_zeros ?d"
  let ?nt = "int ?n - int k + int (length ?d)"
  have sd: "shortest_digits ?x = (?d', ?nt)"
    using assms sk by (simp add: shortest_digits_def dec_exponent_of_int Let_def)
  have c1: "int (length ?d') \<le> ?nt"
    using strip_trailing_zeros_props(1) [of ?d] kn by simp
  have c2: "?nt \<le> 21" using ld n16 k1 by simp
  have dd: "list_all is_digit ?d'"
    by (intro strip_trailing_zeros_props(2) digits_of_nat_all_digits)
  have "pos_toString ?x = ?d' @ replicate (nat (?nt - int (length ?d'))) CHR ''0''"
    using c1 c2 by (simp add: pos_toString_def sd format_digits_def Let_def)
  moreover have "is_digit CHR ''0''" by (simp add: is_digit_def)
  ultimately show ?thesis using dd by (auto simp: list_all_iff)
qed

lemma number_toString_of_int:
  assumes "\<bar>m\<bar> \<le> 2 ^ 53"
  shows "\<forall>c \<in> set (number_toString (Fin (of_int m))). is_digit c \<or> c = CHR ''-''"
proof -
  consider "m = 0" | "1 \<le> m" | "1 \<le> - m" by linarith
  then show ?thesis
  proof cases
    case 1
    then show ?thesis by (simp add: is_digit_def)
  next
    case 2
    with assms pos_toString_of_int [of m] show ?thesis by (simp add: list_all_iff)
  next
    case 3
    with assms pos_toString_of_int [of "- m"] show ?thesis by (simp add: list_all_iff)
  qed
qed

lemma scan_fraction_plain: "c \<noteq> CHR ''.'' \<Longrightarrow> scan_fraction (c # t) = (0, c # t)"
  by (simp add: scan_fraction_def)

lemma scan_exponent_plain:
  "c \<noteq> CHR ''e'' \<Longrightarrow> c \<noteq> CHR ''E'' \<Longrightarrow> scan_exponent (c # t) = None"
  by (simp add: scan_exponent_def)

lemma dp_match_at_plain:
  "c \<noteq> CHR ''.'' \<Longrightarrow> c \<noteq> CHR ''e'' \<Longrightarrow> c \<noteq> CHR ''E'' \<Longrightarrow> dp_match_at (c # t) = None"
  by (simp add: dp_match_at_def scan_fraction_plain scan_exponent_plain)

lemma dp_search_plain:
  "\<forall>c \<in> set s. c \<noteq> CHR ''.'' \<and> c \<noteq> CHR ''e'' \<and> c \<noteq> CHR ''E'' \<Longrightarrow> dp_search s = (0, 0)"
  by (induction s) (simp_all add: dp_match_at_plain)

lemma getDecimalPlaces_of_int:
  assumes "\<bar>m\<bar> \<le> 2 ^ 53"
  shows "getDecimalPlaces (Num (Fin (of_int m))) = 0"
proof -
  have "c \<noteq> CHR ''.'' \<and> c \<noteq> CHR ''e'' \<and> c \<noteq> CHR ''E''"
    if "c \<in> set (number_toString (Fin (of_int m)))" for c
  proof -
    from number_toString_of_int [OF assms] that have "is_digit c \<or> c = CHR ''-''" by blast
    then show ?thesis using digit_not_special [of c] by blast
  qed
  then have "dp_search (number_toString (Fin (of_int m))) = (0, 0)"
    by (intro dp_search_plain) blast
  then show ?thesis by (simp add: getDecimalPlaces_def value_toString_def)
qed


subsection \<open>toFixed and parseFloat\<close>





subsection \<open>stepping integers\<close>

lemma abs_le_two_53: "\<bar>a\<bar> \<le> 2 ^ 53 \<longleftrightarrow> - 9007199254740992 \<le> a \<and> a \<le> (9007199254740992::int)"
  by auto













section \<open>The mode latch\<close>




















section \<open>The sanitizer and leading zeros\<close>

lemma isValidBigIntString_parse:
  "isValidBigIntString s an \<Longrightarrow> parseBigIntFromString s = Some (BigInt_of_string s)"
  by (auto simp: isValidBigIntString_def parseBigIntFromString_def split: if_splits)

text \<open>
  C4, as amended. The sanitizer keeps the typed text as raw text when leading zeros are
  allowed and the text matches \<open>leadingZerosPattern\<close>, in both modes. When leading
  zeros are disallowed the pattern is not consulted: in big-integer mode every valid
  integer string is stored as its bigint, and in number mode a payload that passes the
  other checks is stored as its float value.
\<close>

theorem sanitizer_leading_zeros:
  "(allowLeadingZeros p \<and> leadingZerosPattern (text_value pl) \<longrightarrow>
      stored (handleValueChange p big pl src_event) = Some (Str (text_value pl))) \<and>
   (\<not> allowLeadingZeros p \<and> isValidBigIntString (text_value pl) (allowNegative p) \<longrightarrow>
      stored (handleValueChange p True pl src_event) =
        Some (Big (BigInt_of_string (text_value pl)))) \<and>
   (\<not> allowLeadingZeros p \<and> isValidNumber (floatValue pl) (text_value pl) \<and>
    \<not> leadingDecimalZeroPattern (text_value pl) \<and> \<not> trailingZerosPattern (text_value pl) \<and>
    \<not> trailingDecimalSeparatorPattern (text_value pl) \<longrightarrow>
      stored (handleValueChange p False pl src_event) = Some (Num (the (floatValue pl))))"
  by (auto simp: handleValueChange_def no_effects_def parseBigIntOrString_def
      isValidBigIntString_parse)

theorem sanitizer_leading_zeros_witness:
  "(allowLeadingZeros default_props \<and> leadingZerosPattern ''007'' \<and>
    stored (handleValueChange default_props True
      \<lparr>floatValue = Some (Fin 7), formattedValue = ''007'', text_value = ''007''\<rparr> src_event)
      = Some (Str ''007'') \<and>
    stored (handleValueChange default_props False
      \<lparr>floatValue = Some (Fin 7), formattedValue = ''007'', text_value = ''007''\<rparr> src_event)
      = Some (Str ''007'')) \<and>
   (\<not> allowLeadingZeros (default_props\<lparr>allowLeadingZeros := False\<rparr>) \<and>
    isValidBigIntString ''12'' (allowNegative (default_props\<lparr>allowLeadingZeros := False\<rparr>)) \<and>
    isValidNumber (Some (Fin 12)) ''12'' \<and> \<not> leadingDecimalZeroPattern ''12'' \<and>
    \<not> trailingZerosPattern ''12'' \<and> \<not> trailingDecimalSeparatorPattern ''12'' \<and>
    stored (handleValueChange (default_props\<lparr>allowLeadingZeros := False\<rparr>) True
      \<lparr>floatValue = Some (Fin 12), formattedValue = ''12'', text_value = ''12''\<rparr> src_event)
      = Some (Big 12) \<and>
    stored (handleValueChange (default_props\<lparr>allowLeadingZeros := False\<rparr>) False
      \<lparr>floatValue = Some (Fin 12), formattedValue = ''12'', text_value = ''12''\<rparr> src_event)
      = Some (Num (Fin 12)))"
  using
    sanitizer_leading_zeros [of default_props
      "\<lparr>floatValue = Some (Fin 7), formattedValue = ''007'', text_value = ''007''\<rparr>" True]
    sanitizer_leading_zeros [of default_props
      "\<lparr>floatValue = Some (Fin 7), formattedValue = ''007'', text_value = ''007''\<rparr>" False]
    sanitizer_leading_zeros [of "default_props\<lparr>allowLeadingZeros := False\<rparr>"
      "\<lparr>floatValue = Some (Fin 12), formattedValue = ''12'', text_value = ''12''\<rparr>"]
  by (simp add: default_props_def leadingZerosPattern_def isValidBigIntString_def
      isValidNumber_def getTotalDigits_def leadingDecimalZeroPattern_def
      trailingZerosPattern_def trailingDecimalSeparatorPattern_def integerPattern_def
      strip_minus_def starts_with_def is_digit_def all_zeros_def num_less_def
      MAX_SAFE_INTEGER_def BigInt_of_string_def nat_of_digits_def digit_val_def Let_def)

text \<open>
  The claim as stated fails: with leading zeros disallowed, the text \<open>007\<close> matches
  the pattern and is nevertheless resolved, to the bigint \<open>7n\<close> in big-integer mode
  and to the number \<open>7\<close> in number mode.
\<close>

theorem sanitizer_leading_zeros_counterexample:
  "leadingZerosPattern ''007'' \<and>
   stored (handleValueChange (default_props\<lparr>allowLeadingZeros := False\<rparr>) True
     \<lparr>floatValue = Some (Fin 7), formattedValue = ''007'', text_value = ''007''\<rparr> src_event)
     = Some (Big 7) \<and>
   stored (handleValueChange (default_props\<lparr>allowLeadingZeros := False\<rparr>) False
     \<lparr>floatValue = Some (Fin 7), formattedValue = ''007'', text_value = ''007''\<rparr> src_event)
     = Some (Num (Fin 7))"
  by (simp add: eval_number eval_string eval_component cong: let_weak_cong prod.case_cong_weak)

section \<open>Values that cannot be stepped\<close>

text \<open>
  C5. In number mode a number that is not below \<open>Number.MAX_SAFE_INTEGER\<close> and a
  non-empty string that is not a number string, and in big-integer mode a non-empty
  string that is not a valid integer string, are left alone by \<open>increment\<close> and
  \<open>decrement\<close>: \<open>setValue\<close> is not called, nothing is passed to \<open>onValueChange\<close>,
  and neither \<open>onMinReached\<close> nor \<open>onMaxReached\<close> is invoked.
\<close>

theorem non_steppable_noop:
  "((\<exists>n. v = Num n \<and> \<not> num_less n MAX_SAFE_INTEGER) \<or>
    (\<exists>s. v = Str s \<and> s \<noteq> [] \<and> \<not> isNumberString v) \<longrightarrow>
      increment p False v = no_effects \<and> decrement p False v = no_effects) \<and>
   ((\<exists>s. v = Str s \<and> s \<noteq> [] \<and> \<not> isValidBigIntString s (allowNegative p)) \<longrightarrow>
      increment p True v = no_effects \<and> decrement p True v = no_effects)"
  by (auto simp: increment_def decrement_def increment_number_def decrement_number_def
      canStep_def increment_bigint_def decrement_bigint_def canStepBigInt_def)

theorem non_steppable_noop_witness:
  "(\<not> num_less (Fin 9007199254740991) MAX_SAFE_INTEGER \<and>
    increment default_props False (Num (Fin 9007199254740991)) = no_effects \<and>
    decrement default_props False (Num (Fin 9007199254740991)) = no_effects) \<and>
   (\<not> isNumberString (Str ''abc'') \<and> \<not> isValidBigIntString ''abc'' (allowNegative default_props) \<and>
    increment default_props False (Str ''abc'') = no_effects \<and>
    decrement default_props False (Str ''abc'') = no_effects \<and>
    increment default_props True (Str ''abc'') = no_effects \<and>
    decrement default_props True (Str ''abc'') = no_effects)"
  using non_steppable_noop [of "Num (Fin 9007199254740991)" default_props]
    non_steppable_noop [of "Str ''abc''" default_props]
  by (simp add: eval_number eval_string isNumberString_def isValidBigIntString_def
      default_props_def cong: let_weak_cong prod.case_cong_weak)

section \<open>The strict entry gate\<close>

text \<open>
  C6. With \<open>clampBehavior = 'strict'\<close>, \<open>min = 0\<close>, \<open>max = 10\<close> and no \<open>isAllowed\<close> prop,
  the gate returns false for every payload with text \<open>15\<close> and float value \<open>15\<close>, so
  the keystroke calls no handler and the stored value stays what it was.
\<close>

theorem strict_gate_rejects:
  "isAllowed_gate
     (default_props\<lparr>clampBehavior := strict, min_prop := Some (NNum (Fin 0)),
        max_prop := Some (NNum (Fin 10))\<rparr>)
     False (pl\<lparr>floatValue := Some (Fin 15), text_value := ''15''\<rparr>) = False \<and>
   value_after v
     (handle
        (default_props\<lparr>clampBehavior := strict, min_prop := Some (NNum (Fin 0)),
           max_prop := Some (NNum (Fin 10))\<rparr>)
        (c\<lparr>valueMode := number_mode\<rparr>)
        (Keystroke (pl\<lparr>floatValue := Some (Fin 15), text_value := ''15''\<rparr>))) = v"
  by (simp add: eval_number eval_component)

section \<open>The blur normalizer\<close>

text \<open>
  C7. With \<open>clampBehavior = 'blur'\<close>, \<open>min = 0\<close>, \<open>max = 100\<close>, the stored number
  \<open>150\<close> becomes \<open>100\<close> on blur. In general, with \<open>clampBehavior = 'blur'\<close> the value
  after blur of a stored number is \<open>clamp(value, min, max)\<close> and of a stored bigint
  is \<open>clampBigInt(value, min, max)\<close>; for bounds with \<open>min \<le> max\<close> and a value other
  than \<open>NaN\<close> that result lies in \<open>[min, max]\<close>.
\<close>

theorem blur_clamps:
  "value_after (Num (Fin 150))
     (handleBlur (default_props\<lparr>min_prop := Some (NNum (Fin 0)),
        max_prop := Some (NNum (Fin 100))\<rparr>) False (Num (Fin 150))) = Num (Fin 100) \<and>
   (clampBehavior p = blur \<longrightarrow>
      value_after (Num n) (handleBlur p False (Num n)) =
        Num (clamp n (minNumber p) (maxNumber p)) \<and>
      value_after (Big i) (handleBlur p True (Big i)) =
        Big (clampBigInt i (minBigInt p) (maxBigInt p))) \<and>
   (n \<noteq> NaN \<and> minNumber p = Some lo \<and> maxNumber p = Some hi \<and> num_le lo hi \<longrightarrow>
      isInRange (Some (clamp n (minNumber p) (maxNumber p))) (minNumber p) (maxNumber p)) \<and>
   (minBigInt p = Some a \<and> maxBigInt p = Some b \<and> a \<le> b \<longrightarrow>
      a \<le> clampBigInt i (minBigInt p) (maxBigInt p) \<and>
      clampBigInt i (minBigInt p) (maxBigInt p) \<le> b)"
proof (intro conjI impI)
  show "value_after (Num (Fin 150))
     (handleBlur (default_props\<lparr>min_prop := Some (NNum (Fin 0)),
        max_prop := Some (NNum (Fin 100))\<rparr>) False (Num (Fin 150))) = Num (Fin 100)"
    by (simp add: eval_number eval_component)
next
  assume "clampBehavior p = blur"
  then show "value_after (Num n) (handleBlur p False (Num n)) =
      Num (clamp n (minNumber p) (maxNumber p))"
    by (auto simp: value_after_def handleBlur_def strict_neq_def no_effects_def Let_def)
next
  assume "clampBehavior p = blur"
  then show "value_after (Big i) (handleBlur p True (Big i)) =
      Big (clampBigInt i (minBigInt p) (maxBigInt p))"
    by (auto simp: value_after_def handleBlur_def strict_neq_def no_effects_def Let_def)
next
  assume "n \<noteq> NaN \<and> minNumber p = Some lo \<and> maxNumber p = Some hi \<and> num_le lo hi"
  then show "isInRange (Some (clamp n (minNumber p) (maxNumber p))) (minNumber p) (maxNumber p)"
    by (cases n; cases lo; cases hi)
       (auto simp: isInRange_def clamp_def num_le_def num_less_def Let_def)
next
  assume "minBigInt p = Some a \<and> maxBigInt p = Some b \<and> a \<le> b"
  then show "a \<le> clampBigInt i (minBigInt p) (maxBigInt p)"
    by (auto simp: clampBigInt_def)
next
  assume "minBigInt p = Some a \<and> maxBigInt p = Some b \<and> a \<le> b"
  then show "clampBigInt i (minBigInt p) (maxBigInt p) \<le> b"
    by (auto simp: clampBigInt_def)
qed

theorem blur_clamps_witness:
  "clampBehavior (default_props\<lparr>min_prop := Some (NNum (Fin 0)),
      max_prop := Some (NNum (Fin 100))\<rparr>) = blur \<and>
   Fin (- 7) \<noteq> NaN \<and> num_le (Fin 0) (Fin 100) \<and>
   value_after (Num (Fin (- 7)))
     (handleBlur (default_props\<lparr>min_prop := Some (NNum (Fin 0)),
        max_prop := Some (NNum (Fin 100))\<rparr>) False (Num (Fin (- 7)))) = Num (Fin 0) \<and>
   isInRange (Some (Fin 0)) (Some (Fin 0)) (Some (Fin 100)) \<and>
   value_after (Big 150)
     (handleBlur (default_props\<lparr>min_prop := Some (NBig 0),
        max_prop := Some (NBig 100)\<rparr>) True (Big 150)) = Big 100 \<and>
   (0::int) \<le> 100"
  using
    blur_clamps [of "default_props\<lparr>min_prop := Some (NNum (Fin 0)),
        max_prop := Some (NNum (Fin 100))\<rparr>" "Fin (- 7)" 0 "Fin 0" "Fin 100" 0 0]
    blur_clamps [of "default_props\<lparr>min_prop := Some (NBig 0),
        max_prop := Some (NBig 100)\<rparr>" "Fin 0" 150 "Fin 0" "Fin 0" 0 100]
  by (simp add: default_props_def minNumber_def maxNumber_def minBigInt_def maxBigInt_def
      toBigIntOrUndefined_def clamp_def clampBigInt_def num_less_def num_le_def)


section \<open>Stepping a bigint\<close>

text \<open>
  C9. In big-integer mode with the bigint \<open>12345678901234567890\<close> stored and
  \<open>step = 10n\<close>, one \<open>increment()\<close> stores the bigint \<open>12345678901234567900\<close>, when
  there is no \<open>max\<close> or \<open>max\<close> is at least that result; \<open>onMaxReached\<close> is not invoked.
\<close>

theorem bigint_increment_exact:
  assumes "step p = NBig 10"
    and "maxBigInt p = None \<or> 12345678901234567900 \<le> the (maxBigInt p)"
  shows "stored (increment p True (Big 12345678901234567890)) = Some (Big 12345678901234567900) \<and>
         maxReached (increment p True (Big 12345678901234567890)) = 0"
  using assms
  by (auto simp: increment_def increment_bigint_def canStepBigInt_def stepBigInt_def
      toBigIntOrUndefined_def finish_bigint_def bump_max_def no_effects_def Let_def)

theorem bigint_increment_exact_witness:
  "step (default_props\<lparr>step := NBig 10, min_prop := Some (NBig 0)\<rparr>) = NBig 10 \<and>
   maxBigInt (default_props\<lparr>step := NBig 10, min_prop := Some (NBig 0)\<rparr>) = None \<and>
   stored (increment (default_props\<lparr>step := NBig 10, min_prop := Some (NBig 0)\<rparr>) True
     (Big 12345678901234567890)) = Some (Big 12345678901234567900) \<and>
   maxReached (increment (default_props\<lparr>step := NBig 10, min_prop := Some (NBig 0)\<rparr>) True
     (Big 12345678901234567890)) = 0"
  using bigint_increment_exact [of "default_props\<lparr>step := NBig 10, min_prop := Some (NBig 0)\<rparr>"]
  by (simp add: default_props_def maxBigInt_def toBigIntOrUndefined_def)
section \<open>Boundary notification\<close>




section \<open>Step reversibility\<close>




section \<open>The floor of \<open>decrement\<close> in number mode\<close>

lemma c10_value:
  "Number_of_string (''-9007199254740991.'' @ replicate 101 CHR ''0'') = Fin (- 9007199254740991)"
  by (simp add: eval_number eval_string cong: let_weak_cong prod.case_cong_weak)

lemma c10_places:
  "getDecimalPlaces (Str (''-9007199254740991.'' @ replicate 101 CHR ''0'')) = 101"
  by (simp add: eval_number eval_string eval_component cong: let_weak_cong prod.case_cong_weak)

lemma c10_factor:
  "pow10 101 = Fin 99999999999999997704951326524533662844684271992415000612999597473199345218078991130326129448151154688"
  by (simp add: eval_number cong: let_weak_cong)

lemma c10_scaled:
  "Math_round (num_mult (Fin (- 9007199254740991))
     (Fin 99999999999999997704951326524533662844684271992415000612999597473199345218078991130326129448151154688))
   = Fin (- 900719925474099039343992912564714154176452404926454392649179516031533293723111675196988968977678045192193293691125760)"
  by (simp add: eval_number cong: let_weak_cong)

lemma c10_step_scaled:
  "Math_round (num_mult (Fin 1)
     (Fin 99999999999999997704951326524533662844684271992415000612999597473199345218078991130326129448151154688))
   = Fin 99999999999999997704951326524533662844684271992415000612999597473199345218078991130326129448151154688"
  by (simp add: eval_number cong: let_weak_cong)

lemma c10_quotient:
  "num_div
     (num_sub
        (Fin (- 900719925474099039343992912564714154176452404926454392649179516031533293723111675196988968977678045192193293691125760))
        (Fin 99999999999999997704951326524533662844684271992415000612999597473199345218078991130326129448151154688))
     (Fin 99999999999999997704951326524533662844684271992415000612999597473199345218078991130326129448151154688)
   = Fin (- 9007199254740992)"
  by (simp add: eval_number cong: let_weak_cong)

lemma getDecimalPlaces_one: "getDecimalPlaces (Num (Fin 1)) = 0"
  using getDecimalPlaces_of_int [of 1] by simp

text \<open>
  C10. With the default props (\<open>min\<close> undefined, negative values allowed, step \<open>1\<close>)
  and the stored text \<open>-9007199254740991.\<close> followed by 101 zeros, a steppable number
  string, the unclamped result of \<open>decrement()\<close> is \<open>-9007199254740992\<close>, below
  \<open>Number.MIN_SAFE_INTEGER\<close>; \<open>onMinReached\<close> is invoked, and then
  \<open>val.toFixed(101)\<close> throws a RangeError, so \<open>Number.MIN_SAFE_INTEGER\<close> is not
  stored.
\<close>

theorem decrement_range_error:
  "canStep (Str (''-9007199254740991.'' @ replicate 101 CHR ''0'')) \<and>
   isNumberString (Str (''-9007199254740991.'' @ replicate 101 CHR ''0'')) \<and>
   minNumber default_props = None \<and> allowNegative default_props \<and>
   decrement default_props False (Str (''-9007199254740991.'' @ replicate 101 CHR ''0'')) =
     no_effects\<lparr>minReached := 1, threw := Some RangeError\<rparr>"
proof -
  have st: "stepNumber default_props = Fin 1" "minNumber default_props = None"
    "allowNegative default_props"
    by (simp_all add: default_props_def stepNumber_def minNumber_def)
  have ne: "''-9007199254740991.'' @ replicate 101 CHR ''0'' \<noteq> []" by simp
  have ns: "isNumberString (Str (''-9007199254740991.'' @ replicate 101 CHR ''0''))"
    unfolding isNumberString_def js_value.case c10_value using ne by simp
  have cs: "canStep (Str (''-9007199254740991.'' @ replicate 101 CHR ''0''))"
    unfolding canStep_def js_value.case c10_value using ns
    by (simp add: num_less_def MAX_SAFE_INTEGER_def)
  have nv: "Number_of_value (Str (''-9007199254740991.'' @ replicate 101 CHR ''0''))
      = Fin (- 9007199254740991)"
    unfolding Number_of_value_def js_value.case c10_value ..
  have mx: "max (101::nat) 0 = 101" by simp
  have "decrement_number default_props (Str (''-9007199254740991.'' @ replicate 101 CHR ''0''))
      = no_effects\<lparr>minReached := 1, threw := Some RangeError\<rparr>"
    unfolding decrement_number_def Let_def st c10_places getDecimalPlaces_one mx c10_factor nv
      c10_scaled c10_step_scaled c10_quotient
    using cs ns
    by (simp add: num_less_def MIN_SAFE_INTEGER_def bump_min_def finish_number_def toFixed_def
        no_effects_def)
  then show ?thesis using cs ns st by (simp add: decrement_def)
qed

end
